theory Spec2Isabelle
  imports Main "HOL-Library.AList"
begin

section \<open>The Service entity of the Telerivet client (telerivet/service.py)\<close>

subsection \<open>Values, errors and requests\<close>

text \<open>
  The entity classes whose constructors \<open>service.py\<close> calls.
\<close>

datatype entity_class = Message | ContactServiceState

text \<open>
  Python values as they occur in request options and parsed JSON responses. A dict is an
  association list (Python keeps insertion order; lookup is \<open>map_of\<close>, item assignment is
  \<open>AList.update\<close>, which overwrites in place or appends a new key). The last constructor
  is an entity object.
\<close>

text \<open>
  Modelled from the spec: the entity constructors \<open>Message(api, data)\<close> and
  \<open>ContactServiceState(api, data)\<close> (entity.py, message.py and contactservicestate.py
  are not among the sources). An entity built from a response is a typed wrapper around the
  raw data it was given, with nothing marked dirty: \<open>PEntity cls data\<close>. All entities share
  the one dispatcher, so the \<open>api\<close> argument is not stored in the value.
\<close>

datatype pyval =
    PNone
  | PBool bool
  | PInt int
  | PStr string
  | PList "pyval list"
  | PDict "(string \<times> pyval) list"
  | PEntity entity_class pyval

type_synonym pdict = "(string \<times> pyval) list"

text \<open>
  Exceptions: \<open>TypeError\<close> is raised by the interpreter on the client; the others are the
  typed errors that the dispatcher raises for server-reported failures.
\<close>

datatype error =
    TypeError
  | InvalidParameterError string
  | NotFoundError string
  | PermissionError string
  | APIError string

record request =
  meth :: string
  path :: string
  params :: "pdict option"

text \<open>
  The dispatcher \<open>self._api\<close> is an external collaborator, taken as a parameter: it answers a
  request, given the requests issued before it, with a parsed response mapping or an error.
  \<open>doRequest\<close> calls it and records the request, so that the list of requests issued so far
  is the observable effect of every operation. \<open>params = None\<close> stands for a call of
  \<open>doRequest(method, path)\<close> without the third argument.
\<close>

type_synonym dispatcher = "request list \<Rightarrow> request \<Rightarrow> error + pdict"

definition doRequest ::
  "dispatcher \<Rightarrow> string \<Rightarrow> string \<Rightarrow> pdict option \<Rightarrow> request list
     \<Rightarrow> (error + pdict) \<times> request list" where
  "doRequest api m p ps sent =
     (api sent \<lparr>meth = m, path = p, params = ps\<rparr>,
      sent @ [\<lparr>meth = m, path = p, params = ps\<rparr>])"

subsection \<open>Service and Contact\<close>

text \<open>
  A Service has the read-only string ids \<open>project_id\<close> and \<open>id\<close> (field \<open>id_s\<close>), the
  mapping of its other fields (name, active, priority, contexts, vars) and the set of names
  of locally changed fields. Of a Contact the code reads the attribute \<open>id\<close> only; it is a
  Python value, since the string concatenation in the path depends on its type.
\<close>

record service =
  project_id :: string
  id_s :: string
  field_data :: pdict
  dirty :: "string set"

record contact =
  contact_id :: pyval

text \<open>
  \<open>"/projects/%(project_id)s/services/%(id)s" % {...}\<close>: the conversion \<open>%s\<close> applies
  \<open>str\<close>, the identity on the string ids.
\<close>

definition getBaseApiPath :: "service \<Rightarrow> string" where
  "getBaseApiPath self = ''/projects/'' @ project_id self @ ''/services/'' @ id_s self"

text \<open>
  \<open>s + v\<close> for a string \<open>s\<close>: Python raises TypeError unless \<open>v\<close> is a string.
\<close>

definition str_add :: "string \<Rightarrow> pyval \<Rightarrow> error + string" where
  "str_add s v = (case v of PStr t \<Rightarrow> Inr (s @ t) | _ \<Rightarrow> Inl TypeError)"

text \<open>
  \<open>for x in v\<close>: a list yields its elements, a dict its keys, a string its characters;
  any other value is not iterable.
\<close>

definition py_iter :: "pyval \<Rightarrow> error + pyval list" where
  "py_iter v =
     (case v of
        PList xs \<Rightarrow> Inr xs
      | PDict kvs \<Rightarrow> Inr (map (\<lambda>kv. PStr (fst kv)) kvs)
      | PStr s \<Rightarrow> Inr (map (\<lambda>c. PStr [c]) s)
      | _ \<Rightarrow> Inl TypeError)"

subsection \<open>Service.invoke\<close>

text \<open>
  The loop of \<open>invoke\<close>: \<open>sent_messages.append(Message(self._api, sent_message_data))\<close> for
  each entry, in order, starting from the empty list.
\<close>

fun sent_messages_loop :: "pyval list \<Rightarrow> pyval list \<Rightarrow> pyval list" where
  "sent_messages_loop [] sent_messages = sent_messages"
| "sent_messages_loop (sent_message_data # rest) sent_messages =
     sent_messages_loop rest (sent_messages @ [PEntity Message sent_message_data])"

definition invoke ::
  "dispatcher \<Rightarrow> service \<Rightarrow> pdict \<Rightarrow> request list \<Rightarrow> (error + pdict) \<times> request list" where
  "invoke api self options sent =
     (case doRequest api ''POST'' (getBaseApiPath self @ ''/invoke'') (Some options) sent of
        (Inl e, sent') \<Rightarrow> (Inl e, sent')
      | (Inr invoke_result, sent') \<Rightarrow>
          (case map_of invoke_result ''sent_messages'' of
             None \<Rightarrow> (Inr invoke_result, sent')
           | Some raw \<Rightarrow>
               (case py_iter raw of
                  Inl e \<Rightarrow> (Inl e, sent')
                | Inr entries \<Rightarrow>
                    (Inr (AList.update ''sent_messages''
                            (PList (sent_messages_loop entries [])) invoke_result),
                     sent'))))"

subsection \<open>Per-contact state\<close>

definition getContactState ::
  "dispatcher \<Rightarrow> service \<Rightarrow> contact \<Rightarrow> request list \<Rightarrow> (error + pyval) \<times> request list" where
  "getContactState api self c sent =
     (case str_add (getBaseApiPath self @ ''/states/'') (contact_id c) of
        Inl e \<Rightarrow> (Inl e, sent)
      | Inr p \<Rightarrow>
          (case doRequest api ''GET'' p None sent of
             (Inl e, sent') \<Rightarrow> (Inl e, sent')
           | (Inr data, sent') \<Rightarrow> (Inr (PEntity ContactServiceState (PDict data)), sent')))"

definition setContactState ::
  "dispatcher \<Rightarrow> service \<Rightarrow> contact \<Rightarrow> pdict \<Rightarrow> request list
     \<Rightarrow> (error + pyval) \<times> request list" where
  "setContactState api self c options sent =
     (case str_add (getBaseApiPath self @ ''/states/'') (contact_id c) of
        Inl e \<Rightarrow> (Inl e, sent)
      | Inr p \<Rightarrow>
          (case doRequest api ''POST'' p (Some options) sent of
             (Inl e, sent') \<Rightarrow> (Inl e, sent')
           | (Inr data, sent') \<Rightarrow> (Inr (PEntity ContactServiceState (PDict data)), sent')))"

definition resetContactState ::
  "dispatcher \<Rightarrow> service \<Rightarrow> contact \<Rightarrow> request list \<Rightarrow> (error + pyval) \<times> request list" where
  "resetContactState api self c sent =
     (case str_add (getBaseApiPath self @ ''/states/'') (contact_id c) of
        Inl e \<Rightarrow> (Inl e, sent)
      | Inr p \<Rightarrow>
          (case doRequest api ''DELETE'' p None sent of
             (Inl e, sent') \<Rightarrow> (Inl e, sent')
           | (Inr data, sent') \<Rightarrow> (Inr (PEntity ContactServiceState (PDict data)), sent')))"

text \<open>
  Modelled from the spec: reading a field of an entity (entity.py is not among the sources),
  here the \<open>id\<close> of a returned state. It reads the field mapping the entity wraps.
\<close>

fun entity_field :: "pyval \<Rightarrow> string \<Rightarrow> pyval option" where
  "entity_field (PEntity cls (PDict kvs)) name = map_of kvs name"
| "entity_field _ name = None"

subsection \<open>Cursors\<close>

text \<open>
  Modelled from the spec: the cursor (its class is not among the sources). A cursor is
  parameterized by an entity class, a path and the filter options,
  and is either unfetched or holds a fetched page. Constructing it issues no request; the
  first access of an unfetched cursor issues a GET of the path with the stored options and
  stores the page returned.
\<close>

datatype cursor_state = Unfetched | FetchedPage pdict

record cursor =
  item_cls :: entity_class
  cursor_path :: string
  cursor_params :: pdict
  cursor_state :: cursor_state

text \<open>
  Modelled from the spec: \<open>newApiCursor\<close> of the dispatcher (not among the sources) builds
  the unfetched cursor and issues no request.
\<close>

definition newApiCursor ::
  "entity_class \<Rightarrow> string \<Rightarrow> pdict \<Rightarrow> request list \<Rightarrow> cursor \<times> request list" where
  "newApiCursor cls p options sent =
     (\<lparr>item_cls = cls, cursor_path = p, cursor_params = options, cursor_state = Unfetched\<rparr>,
      sent)"

text \<open>
  Modelled from the spec: the first access to a cursor (the cursor class is not among the
  sources). An unfetched cursor issues the GET with its stored options; an error of the
  dispatcher is raised and leaves the cursor unfetched.
\<close>

definition cursor_access ::
  "dispatcher \<Rightarrow> cursor \<Rightarrow> request list \<Rightarrow> (error + unit) \<times> cursor \<times> request list" where
  "cursor_access api cur sent =
     (case cursor_state cur of
        FetchedPage pg \<Rightarrow> (Inr (), cur, sent)
      | Unfetched \<Rightarrow>
          (case doRequest api ''GET'' (cursor_path cur) (Some (cursor_params cur)) sent of
             (Inl e, sent') \<Rightarrow> (Inl e, cur, sent')
           | (Inr pg, sent') \<Rightarrow> (Inr (), cur\<lparr>cursor_state := FetchedPage pg\<rparr>, sent')))"

definition queryContactStates ::
  "dispatcher \<Rightarrow> service \<Rightarrow> pdict \<Rightarrow> request list \<Rightarrow> cursor \<times> request list" where
  "queryContactStates api self options sent =
     newApiCursor ContactServiceState (getBaseApiPath self @ ''/states'') options sent"

subsection \<open>Saving\<close>

text \<open>
  Modelled from the spec: the payload of \<open>Entity.save\<close> (entity.py is not among the
  sources), the fields whose names are in the dirty set, with their current values.
\<close>

definition dirty_fields :: "service \<Rightarrow> pdict" where
  "dirty_fields self = filter (\<lambda>kv. fst kv \<in> dirty self) (field_data self)"

text \<open>
  Modelled from the spec: \<open>Entity.save\<close> (entity.py is not among the sources). With no dirty
  field it issues no request and does not fail. Otherwise it sends only the dirty fields, by
  POST to the base path of the entity; when the dispatcher accepts, the dirty set is cleared
  and the fields stay as they are; when the dispatcher raises, the error is raised and the
  entity is not changed.
\<close>

definition Entity_save ::
  "dispatcher \<Rightarrow> service \<Rightarrow> request list \<Rightarrow> (error + unit) \<times> service \<times> request list" where
  "Entity_save api self sent =
     (if dirty self = {} then (Inr (), self, sent)
      else
        (case doRequest api ''POST'' (getBaseApiPath self) (Some (dirty_fields self)) sent of
           (Inl e, sent') \<Rightarrow> (Inl e, self, sent')
         | (Inr data, sent') \<Rightarrow> (Inr (), self\<lparr>dirty := {}\<rparr>, sent')))"

text \<open>
  \<open>Service.save\<close> is \<open>super(Service, self).save()\<close>.
\<close>

definition save ::
  "dispatcher \<Rightarrow> service \<Rightarrow> request list \<Rightarrow> (error + unit) \<times> service \<times> request list" where
  "save api self sent = Entity_save api self sent"

subsection \<open>The result of a state operation\<close>

text \<open>
  What \<open>getContactState\<close>, \<open>setContactState\<close> and \<open>resetContactState\<close> make of the
  dispatcher's answer: its error is raised, its response mapping is wrapped as
  \<open>ContactServiceState(self._api, data)\<close>. Used to state their results.
\<close>

definition wrap_state :: "error + pdict \<Rightarrow> error + pyval" where
  "wrap_state r =
     (case r of Inl e \<Rightarrow> Inl e | Inr data \<Rightarrow> Inr (PEntity ContactServiceState (PDict data)))"

subsection \<open>The server's contract for a null state id\<close>

text \<open>
  From the docstring of \<open>setContactState\<close> (\<open>If the state id is null, the contact's
  state will be reset\<close>): at the state path \<open>p\<close> the server treats a POST whose only
  parameter is a null \<open>id\<close> as it treats a DELETE. It answers the two alike, and its
  answer to any later request does not depend on which of the two it received.
\<close>

definition null_id_resets :: "dispatcher \<Rightarrow> string \<Rightarrow> bool" where
  "null_id_resets api p \<longleftrightarrow>
     (\<forall>sent.
        api sent \<lparr>meth = ''POST'', path = p, params = Some [(''id'', PNone)]\<rparr> =
        api sent \<lparr>meth = ''DELETE'', path = p, params = None\<rparr>) \<and>
     (\<forall>sent later req.
        api (sent @ \<lparr>meth = ''POST'', path = p, params = Some [(''id'', PNone)]\<rparr> # later) req =
        api (sent @ \<lparr>meth = ''DELETE'', path = p, params = None\<rparr> # later) req)"

subsection \<open>A stub server and example entities\<close>

text \<open>
  Concrete inputs on which the theorems below are instantiated. \<open>stub_server\<close> serves the
  service SV1 of project PJ1 and the contact CT1: it checks the context of an invoke,
  answers GET and DELETE of the contact's state with the null-id placeholder, answers a POST
  of the state with the state set (the placeholder again for a null id), and accepts a POST
  to the service itself. \<open>failing_server\<close> rejects every request; \<open>plain_server\<close>
  answers every request alike. \<open>state_server\<close> keeps one state id for every path: a
  DELETE of the path resets it to null, a POST with an \<open>id\<close> sets it to that id, and every
  answer carries the id current after the request.
\<close>

definition example_service :: service where
  "example_service =
     \<lparr>project_id = ''PJ1'', id_s = ''SV1'',
      field_data = [(''name'', PStr ''Poll''), (''active'', PBool True), (''priority'', PInt 1)],
      dirty = {}\<rparr>"

definition example_contact :: contact where
  "example_contact = \<lparr>contact_id = PStr ''CT1''\<rparr>"

definition stub_server :: dispatcher where
  "stub_server sent req =
     (if path req = ''/projects/PJ1/services/SV1/invoke'' \<and> meth req = ''POST'' then
        (case params req of
           None \<Rightarrow> Inl (InvalidParameterError ''context'')
         | Some options \<Rightarrow>
             (case map_of options ''context'' of
                Some (PStr ctx) \<Rightarrow>
                  (if ctx \<in> {''message'', ''contact'', ''project'', ''receipt''} then
                     Inr [(''return_value'', PBool True),
                          (''sent_messages'',
                             PList [PDict [(''id'', PStr ''SM1'')],
                                    PDict [(''id'', PStr ''SM2'')]]),
                          (''handled'', PBool True)]
                   else Inl (InvalidParameterError ''context''))
              | _ \<Rightarrow> Inl (InvalidParameterError ''context'')))
      else if path req = ''/projects/PJ1/services/SV1/states/CT1'' then
        (if meth req = ''GET'' \<or> meth req = ''DELETE'' then
           Inr [(''id'', PNone), (''contact_id'', PStr ''CT1'')]
         else if meth req = ''POST'' then
           (case params req of
              None \<Rightarrow> Inl (InvalidParameterError ''id'')
            | Some options \<Rightarrow>
                (case map_of options ''id'' of
                   Some (PStr s) \<Rightarrow> Inr [(''id'', PStr s), (''contact_id'', PStr ''CT1'')]
                 | Some PNone \<Rightarrow> Inr [(''id'', PNone), (''contact_id'', PStr ''CT1'')]
                 | _ \<Rightarrow> Inl (InvalidParameterError ''id'')))
         else Inl (APIError ''method''))
      else if path req = ''/projects/PJ1/services/SV1'' \<and> meth req = ''POST'' then
        Inr [(''id'', PStr ''SV1'')]
      else Inl (NotFoundError (path req)))"

definition failing_server :: dispatcher where
  "failing_server sent req = Inl (APIError ''unavailable'')"

definition plain_server :: dispatcher where
  "plain_server sent req = Inr [(''return_value'', PBool False)]"

definition state_step :: "string \<Rightarrow> pyval \<Rightarrow> request \<Rightarrow> pyval" where
  "state_step p st req =
     (if path req \<noteq> p then st
      else if meth req = ''DELETE'' then PNone
      else if meth req = ''POST'' then
        (case params req of
           None \<Rightarrow> st
         | Some options \<Rightarrow> (case map_of options ''id'' of None \<Rightarrow> st | Some v \<Rightarrow> v))
      else st)"

definition state_server :: dispatcher where
  "state_server sent req = Inr [(''id'', foldl (state_step (path req)) PNone (sent @ [req]))]"

section \<open>Properties\<close>

subsection \<open>The loop of invoke\<close>

lemma sent_messages_loop_append:
  "sent_messages_loop entries acc = acc @ map (PEntity Message) entries"
  by (induction entries arbitrary: acc) simp_all

lemma sent_messages_loop_map:
  "sent_messages_loop entries [] = map (PEntity Message) entries"
  by (simp add: sent_messages_loop_append)

subsection \<open>What each operation sends and returns\<close>

lemma invoke_sent:
  "snd (invoke api self options sent) =
     sent @ [\<lparr>meth = ''POST'', path = getBaseApiPath self @ ''/invoke'', params = Some options\<rparr>]"
  by (simp add: invoke_def doRequest_def split: sum.splits option.splits)

lemma invoke_result:
  "fst (invoke api self options sent) =
     (case api sent \<lparr>meth = ''POST'', path = getBaseApiPath self @ ''/invoke'',
                      params = Some options\<rparr> of
        Inl e \<Rightarrow> Inl e
      | Inr resp \<Rightarrow>
          (case map_of resp ''sent_messages'' of
             None \<Rightarrow> Inr resp
           | Some raw \<Rightarrow>
               (case py_iter raw of
                  Inl e \<Rightarrow> Inl e
                | Inr entries \<Rightarrow>
                    Inr (AList.update ''sent_messages''
                           (PList (map (PEntity Message) entries)) resp))))"
  by (simp add: invoke_def doRequest_def sent_messages_loop_map split: sum.splits option.splits)

lemma filter_update_other:
  "filter (\<lambda>kv. fst kv \<noteq> k) (AList.update k v al) = filter (\<lambda>kv. fst kv \<noteq> k) al"
  by (induction al) auto

lemma str_add_PStr: "str_add s (PStr t) = Inr (s @ t)"
  by (simp add: str_add_def)

lemma str_add_other: "\<forall>t. v \<noteq> PStr t \<Longrightarrow> str_add s v = Inl TypeError"
  by (cases v) (simp_all add: str_add_def)

lemma getContactState_str:
  "contact_id c = PStr cid \<Longrightarrow>
   getContactState api self c sent =
     (wrap_state (api sent \<lparr>meth = ''GET'', path = getBaseApiPath self @ ''/states/'' @ cid,
                              params = None\<rparr>),
      sent @ [\<lparr>meth = ''GET'', path = getBaseApiPath self @ ''/states/'' @ cid, params = None\<rparr>])"
  by (simp add: getContactState_def str_add_PStr doRequest_def wrap_state_def split: sum.splits)

lemma setContactState_str:
  "contact_id c = PStr cid \<Longrightarrow>
   setContactState api self c options sent =
     (wrap_state (api sent \<lparr>meth = ''POST'', path = getBaseApiPath self @ ''/states/'' @ cid,
                              params = Some options\<rparr>),
      sent @ [\<lparr>meth = ''POST'', path = getBaseApiPath self @ ''/states/'' @ cid,
               params = Some options\<rparr>])"
  by (simp add: setContactState_def str_add_PStr doRequest_def wrap_state_def split: sum.splits)

lemma resetContactState_str:
  "contact_id c = PStr cid \<Longrightarrow>
   resetContactState api self c sent =
     (wrap_state (api sent \<lparr>meth = ''DELETE'', path = getBaseApiPath self @ ''/states/'' @ cid,
                              params = None\<rparr>),
      sent @ [\<lparr>meth = ''DELETE'', path = getBaseApiPath self @ ''/states/'' @ cid,
               params = None\<rparr>])"
  by (simp add: resetContactState_def str_add_PStr doRequest_def wrap_state_def split: sum.splits)

lemma state_ops_no_id:
  assumes "\<forall>t. contact_id c \<noteq> PStr t"
  shows "getContactState api self c sent = (Inl TypeError, sent)"
    and "setContactState api self c options sent = (Inl TypeError, sent)"
    and "resetContactState api self c sent = (Inl TypeError, sent)"
  using assms
  by (simp_all add: getContactState_def setContactState_def resetContactState_def str_add_other)

lemma example_base: "getBaseApiPath example_service = ''/projects/PJ1/services/SV1''"
  by (simp add: getBaseApiPath_def example_service_def)

lemma save_error:
  "dirty self \<noteq> {} \<Longrightarrow>
   api sent \<lparr>meth = ''POST'', path = getBaseApiPath self,
              params = Some (dirty_fields self)\<rparr> = Inl e \<Longrightarrow>
   save api self sent =
     (Inl e, self,
      sent @ [\<lparr>meth = ''POST'', path = getBaseApiPath self,
               params = Some (dirty_fields self)\<rparr>])"
  by (simp add: save_def Entity_save_def doRequest_def)

lemma cursor_access_error:
  "cursor_state cur = Unfetched \<Longrightarrow>
   api sent \<lparr>meth = ''GET'', path = cursor_path cur, params = Some (cursor_params cur)\<rparr> = Inl e \<Longrightarrow>
   cursor_access api cur sent =
     (Inl e, cur,
      sent @ [\<lparr>meth = ''GET'', path = cursor_path cur, params = Some (cursor_params cur)\<rparr>])"
  by (simp add: cursor_access_def doRequest_def)

lemma state_step_null_other:
  "state_step q st \<lparr>meth = ''POST'', path = p, params = Some [(''id'', PNone)]\<rparr> =
   state_step q st \<lparr>meth = ''DELETE'', path = p, params = None\<rparr>"
  by (simp add: state_step_def)

lemma state_server_resets: "null_id_resets state_server p"
  by (simp add: null_id_resets_def state_server_def state_step_null_other)

subsection \<open>Claims about invoke\<close>

text \<open>
  Claim C1. When the dispatcher answers the POST of \<open>invoke\<close> with a response mapping:
  if the mapping has no key \<open>sent_messages\<close>, \<open>invoke\<close> returns it as it is; if it has
  the key and the value under it is a collection with entries \<open>entries\<close>, \<open>invoke\<close>
  returns a mapping whose \<open>sent_messages\<close> is the list of the Message entities built from
  those entries, one for each, none of them a raw mapping.
\<close>

theorem invoke_materializes_sent_messages:
  assumes "api sent \<lparr>meth = ''POST'', path = getBaseApiPath self @ ''/invoke'',
                      params = Some options\<rparr> = Inr resp"
  shows "(map_of resp ''sent_messages'' = None \<longrightarrow>
            fst (invoke api self options sent) = Inr resp) \<and>
         (\<forall>raw entries.
            map_of resp ''sent_messages'' = Some raw \<and> py_iter raw = Inr entries \<longrightarrow>
            (\<exists>result. fst (invoke api self options sent) = Inr result \<and>
               map_of result ''sent_messages'' = Some (PList (map (PEntity Message) entries))))"
  using assms by (simp add: invoke_result update_conv')

text \<open>
  C1 on the stub server: a response with two raw messages comes back with two Message
  entities, and a response without \<open>sent_messages\<close> comes back unchanged.
\<close>

theorem invoke_materializes_sent_messages_witness:
  "fst (invoke stub_server example_service [(''context'', PStr ''message'')] []) =
     Inr [(''return_value'', PBool True),
          (''sent_messages'',
             PList [PEntity Message (PDict [(''id'', PStr ''SM1'')]),
                    PEntity Message (PDict [(''id'', PStr ''SM2'')])]),
          (''handled'', PBool True)] \<and>
   fst (invoke plain_server example_service [(''context'', PStr ''project'')] []) =
     Inr [(''return_value'', PBool False)]"
  using invoke_materializes_sent_messages
      [of stub_server "[]" example_service "[(''context'', PStr ''message'')]"
          "[(''return_value'', PBool True),
            (''sent_messages'',
               PList [PDict [(''id'', PStr ''SM1'')], PDict [(''id'', PStr ''SM2'')]]),
            (''handled'', PBool True)]"]
    invoke_materializes_sent_messages
      [of plain_server "[]" example_service "[(''context'', PStr ''project'')]"
          "[(''return_value'', PBool False)]"]
  by (simp add: stub_server_def plain_server_def example_base invoke_result py_iter_def)

text \<open>
  Claim C9. When the dispatcher answers with a response mapping whose \<open>sent_messages\<close>,
  if present, is a collection with entries \<open>entries\<close>, \<open>invoke\<close> returns a mapping with
  the same keys in the same order and the same value under every key other than
  \<open>sent_messages\<close>; under \<open>sent_messages\<close> it holds a list of the same length as
  \<open>entries\<close> whose element at index \<open>i\<close> is the Message built from entry \<open>i\<close>.
\<close>

theorem invoke_frame:
  assumes resp: "api sent \<lparr>meth = ''POST'', path = getBaseApiPath self @ ''/invoke'',
                      params = Some options\<rparr> = Inr resp"
    and iter: "map_of resp ''sent_messages'' = None \<or>
               (\<exists>raw. map_of resp ''sent_messages'' = Some raw \<and> py_iter raw = Inr entries)"
  shows "\<exists>result. fst (invoke api self options sent) = Inr result \<and>
           map fst result = map fst resp \<and>
           (\<forall>k. k \<noteq> ''sent_messages'' \<longrightarrow> map_of result k = map_of resp k) \<and>
           filter (\<lambda>kv. fst kv \<noteq> ''sent_messages'') result =
             filter (\<lambda>kv. fst kv \<noteq> ''sent_messages'') resp \<and>
           (\<forall>raw. map_of resp ''sent_messages'' = Some raw \<longrightarrow>
              (\<exists>msgs. map_of result ''sent_messages'' = Some (PList msgs) \<and>
                 length msgs = length entries \<and>
                 (\<forall>i < length entries. msgs ! i = PEntity Message (entries ! i))))"
proof (cases "map_of resp ''sent_messages''")
  case None
  then show ?thesis using resp by (simp add: invoke_result)
next
  case (Some raw)
  with iter have it: "py_iter raw = Inr entries" by simp
  have "(''sent_messages'', raw) \<in> set resp"
    using Some by (rule map_of_SomeD)
  then have mem: "''sent_messages'' \<in> set (map fst resp)"
    by (metis fst_conv image_eqI set_map)
  let ?result = "AList.update ''sent_messages'' (PList (map (PEntity Message) entries)) resp"
  have r: "fst (invoke api self options sent) = Inr ?result"
    using resp Some it by (simp add: invoke_result)
  have keys: "map fst ?result = map fst resp"
    using mem by (simp add: update_keys)
  have others: "\<forall>k. k \<noteq> ''sent_messages'' \<longrightarrow> map_of ?result k = map_of resp k"
    by (simp add: update_conv')
  have rest: "filter (\<lambda>kv. fst kv \<noteq> ''sent_messages'') ?result =
                filter (\<lambda>kv. fst kv \<noteq> ''sent_messages'') resp"
    by (rule filter_update_other)
  have msgs: "map_of ?result ''sent_messages'' = Some (PList (map (PEntity Message) entries))"
    by (simp add: update_conv')
  show ?thesis
    using r keys others rest msgs by simp
qed

text \<open>
  C9 on the stub server: the keys and the two other values are kept, and the two messages
  are built from the two raw entries in order.
\<close>

theorem invoke_frame_witness:
  "\<exists>result. fst (invoke stub_server example_service [(''context'', PStr ''message'')] []) =
       Inr result \<and>
     map fst result = [''return_value'', ''sent_messages'', ''handled''] \<and>
     map_of result ''return_value'' = Some (PBool True) \<and>
     map_of result ''handled'' = Some (PBool True) \<and>
     (\<exists>msgs. map_of result ''sent_messages'' = Some (PList msgs) \<and> length msgs = 2 \<and>
        msgs ! 0 = PEntity Message (PDict [(''id'', PStr ''SM1'')]) \<and>
        msgs ! 1 = PEntity Message (PDict [(''id'', PStr ''SM2'')]))"
  using invoke_frame
      [of stub_server "[]" example_service "[(''context'', PStr ''message'')]"
          "[(''return_value'', PBool True),
            (''sent_messages'',
               PList [PDict [(''id'', PStr ''SM1'')], PDict [(''id'', PStr ''SM2'')]]),
            (''handled'', PBool True)]"
          "[PDict [(''id'', PStr ''SM1'')], PDict [(''id'', PStr ''SM2'')]]"]
  by (simp add: stub_server_def example_base invoke_result py_iter_def)

text \<open>
  Claim C4, as stated, fails: \<open>invoke\<close> does not check the context. With the context
  \<open>bogus\<close>, outside the allowed set, the POST is issued all the same; the stub server,
  which checks the context, answers with an error, and a server that does not check answers
  with a response, which \<open>invoke\<close> returns.
\<close>

theorem invoke_unknown_context_counterexample:
  "''bogus'' \<notin> {''message'', ''contact'', ''project'', ''receipt''} \<and>
   invoke stub_server example_service [(''context'', PStr ''bogus'')] [] =
     (Inl (InvalidParameterError ''context''),
      [\<lparr>meth = ''POST'', path = ''/projects/PJ1/services/SV1/invoke'',
        params = Some [(''context'', PStr ''bogus'')]\<rparr>]) \<and>
   invoke plain_server example_service [(''context'', PStr ''bogus'')] [] =
     (Inr [(''return_value'', PBool False)],
      [\<lparr>meth = ''POST'', path = ''/projects/PJ1/services/SV1/invoke'',
        params = Some [(''context'', PStr ''bogus'')]\<rparr>])"
  by (simp add: invoke_def doRequest_def example_base stub_server_def plain_server_def)

text \<open>
  Claim C4, amended. \<open>invoke\<close> performs no validation of its options on the client:
  whatever the options, it issues exactly one POST to the base path followed by
  \<open>/invoke\<close>, carrying the options unchanged; a rejection of the context comes from the
  server, as the error the dispatcher raises, and reaches the caller as it is.
\<close>

theorem invoke_sends_unvalidated:
  "snd (invoke api self options sent) =
     sent @ [\<lparr>meth = ''POST'', path = getBaseApiPath self @ ''/invoke'',
              params = Some options\<rparr>] \<and>
   (\<forall>e. api sent \<lparr>meth = ''POST'', path = getBaseApiPath self @ ''/invoke'',
                     params = Some options\<rparr> = Inl e \<longrightarrow>
        fst (invoke api self options sent) = Inl e)"
  by (simp add: invoke_sent invoke_result)

text \<open>
  The amended C4 on the stub server: the request with the context \<open>bogus\<close> is sent and
  the server's InvalidParameterError is the result.
\<close>

theorem invoke_sends_unvalidated_witness:
  "stub_server [] \<lparr>meth = ''POST'', path = ''/projects/PJ1/services/SV1/invoke'',
                    params = Some [(''context'', PStr ''bogus'')]\<rparr> =
     Inl (InvalidParameterError ''context'') \<and>
   snd (invoke stub_server example_service [(''context'', PStr ''bogus'')] []) =
     [\<lparr>meth = ''POST'', path = ''/projects/PJ1/services/SV1/invoke'',
       params = Some [(''context'', PStr ''bogus'')]\<rparr>] \<and>
   fst (invoke stub_server example_service [(''context'', PStr ''bogus'')] []) =
     Inl (InvalidParameterError ''context'')"
  using invoke_sends_unvalidated
      [of stub_server example_service "[(''context'', PStr ''bogus'')]" "[]"]
  by (simp add: example_base stub_server_def)

subsection \<open>Claims about the per-contact state\<close>

text \<open>
  Claim C3. For a contact with a string id, when the dispatcher answers the GET of the
  contact's state with a mapping whose \<open>id\<close> is null (the placeholder the server returns
  for a contact without state), \<open>getContactState\<close> returns the ContactServiceState
  built from that mapping, whose \<open>id\<close> is null; it raises no error, in particular no
  NotFoundError.
\<close>

theorem getContactState_placeholder:
  assumes "contact_id c = PStr cid"
    and "api sent \<lparr>meth = ''GET'', path = getBaseApiPath self @ ''/states/'' @ cid,
                     params = None\<rparr> = Inr data"
    and "map_of data ''id'' = Some PNone"
  shows "fst (getContactState api self c sent) = Inr (PEntity ContactServiceState (PDict data)) \<and>
         entity_field (PEntity ContactServiceState (PDict data)) ''id'' = Some PNone \<and>
         (\<forall>msg. fst (getContactState api self c sent) \<noteq> Inl (NotFoundError msg))"
  using assms by (simp add: getContactState_str wrap_state_def)

text \<open>
  C3 on the stub server, which answers the GET for contact CT1 with the null-id
  placeholder.
\<close>

theorem getContactState_placeholder_witness:
  "contact_id example_contact = PStr ''CT1'' \<and>
   fst (getContactState stub_server example_service example_contact []) =
     Inr (PEntity ContactServiceState (PDict [(''id'', PNone), (''contact_id'', PStr ''CT1'')])) \<and>
   entity_field
     (PEntity ContactServiceState (PDict [(''id'', PNone), (''contact_id'', PStr ''CT1'')]))
     ''id'' = Some PNone"
  using getContactState_placeholder
      [of example_contact "''CT1''" stub_server "[]" example_service
          "[(''id'', PNone), (''contact_id'', PStr ''CT1'')]"]
  by (simp add: stub_server_def example_base example_contact_def)

text \<open>
  Claim C2. For a contact with a string id and a server that keeps the contract of
  \<open>setContactState\<close> for a null id at the contact's state path,
  \<open>setContactState(contact, id=None)\<close> is equivalent in effect to
  \<open>resetContactState(contact)\<close>. Each issues one request to that path (a POST with the
  parameters \<open>{id: None}\<close>, a DELETE without parameters); the two calls return the same
  result; after either the server answers every later request alike, so the state of the
  contact is the same; in particular \<open>getContactState\<close> returns the same after both.
\<close>

theorem setContactState_null_is_reset:
  assumes cid: "contact_id c = PStr cid"
    and contract: "null_id_resets api (getBaseApiPath self @ ''/states/'' @ cid)"
  shows "snd (setContactState api self c [(''id'', PNone)] sent) =
           sent @ [\<lparr>meth = ''POST'', path = getBaseApiPath self @ ''/states/'' @ cid,
                    params = Some [(''id'', PNone)]\<rparr>] \<and>
         snd (resetContactState api self c sent) =
           sent @ [\<lparr>meth = ''DELETE'', path = getBaseApiPath self @ ''/states/'' @ cid,
                    params = None\<rparr>] \<and>
         fst (setContactState api self c [(''id'', PNone)] sent) =
         fst (resetContactState api self c sent) \<and>
         (\<forall>later req.
            api (snd (setContactState api self c [(''id'', PNone)] sent) @ later) req =
            api (snd (resetContactState api self c sent) @ later) req) \<and>
         fst (getContactState api self c
                (snd (setContactState api self c [(''id'', PNone)] sent))) =
         fst (getContactState api self c (snd (resetContactState api self c sent)))"
proof -
  let ?p = "getBaseApiPath self @ ''/states/'' @ cid"
  let ?post = "\<lparr>meth = ''POST'', path = ?p, params = Some [(''id'', PNone)]\<rparr>"
  let ?del = "\<lparr>meth = ''DELETE'', path = ?p, params = None\<rparr>"
  have now: "api sent ?post = api sent ?del"
    using contract by (simp add: null_id_resets_def)
  have later: "api (sent @ ?post # later) req = api (sent @ ?del # later) req" for later req
    using contract by (simp add: null_id_resets_def)
  have s: "setContactState api self c [(''id'', PNone)] sent = (wrap_state (api sent ?post), sent @ [?post])"
    using cid by (simp add: setContactState_str)
  have r: "resetContactState api self c sent = (wrap_state (api sent ?del), sent @ [?del])"
    using cid by (simp add: resetContactState_str)
  have g: "fst (getContactState api self c (sent @ [?post])) =
           fst (getContactState api self c (sent @ [?del]))"
    using cid later [of "[]"] by (simp add: getContactState_str)
  show ?thesis
    using now later g by (simp add: s r)
qed

text \<open>
  C2 on \<open>state_server\<close>, after the contact's state was set to \<open>q1\<close>: the state read
  is \<open>q1\<close> before; both calls return the state with a null id, and the state read after
  either has a null id.
\<close>

theorem setContactState_null_is_reset_witness:
  "contact_id example_contact = PStr ''CT1'' \<and>
   null_id_resets state_server ''/projects/PJ1/services/SV1/states/CT1'' \<and>
   fst (getContactState state_server example_service example_contact
          [\<lparr>meth = ''POST'', path = ''/projects/PJ1/services/SV1/states/CT1'',
            params = Some [(''id'', PStr ''q1'')]\<rparr>]) =
     Inr (PEntity ContactServiceState (PDict [(''id'', PStr ''q1'')])) \<and>
   fst (setContactState state_server example_service example_contact [(''id'', PNone)]
          [\<lparr>meth = ''POST'', path = ''/projects/PJ1/services/SV1/states/CT1'',
            params = Some [(''id'', PStr ''q1'')]\<rparr>]) =
     Inr (PEntity ContactServiceState (PDict [(''id'', PNone)])) \<and>
   fst (resetContactState state_server example_service example_contact
          [\<lparr>meth = ''POST'', path = ''/projects/PJ1/services/SV1/states/CT1'',
            params = Some [(''id'', PStr ''q1'')]\<rparr>]) =
     Inr (PEntity ContactServiceState (PDict [(''id'', PNone)])) \<and>
   fst (getContactState state_server example_service example_contact
          (snd (setContactState state_server example_service example_contact [(''id'', PNone)]
             [\<lparr>meth = ''POST'', path = ''/projects/PJ1/services/SV1/states/CT1'',
               params = Some [(''id'', PStr ''q1'')]\<rparr>]))) =
     Inr (PEntity ContactServiceState (PDict [(''id'', PNone)])) \<and>
   fst (getContactState state_server example_service example_contact
          (snd (resetContactState state_server example_service example_contact
             [\<lparr>meth = ''POST'', path = ''/projects/PJ1/services/SV1/states/CT1'',
               params = Some [(''id'', PStr ''q1'')]\<rparr>]))) =
     Inr (PEntity ContactServiceState (PDict [(''id'', PNone)]))"
  using setContactState_null_is_reset
      [of example_contact "''CT1''" state_server example_service
          "[\<lparr>meth = ''POST'', path = ''/projects/PJ1/services/SV1/states/CT1'',
             params = Some [(''id'', PStr ''q1'')]\<rparr>]"]
    state_server_resets [of "''/projects/PJ1/services/SV1/states/CT1''"]
  by (simp add: example_contact_def example_base getContactState_str setContactState_str
        resetContactState_str wrap_state_def state_server_def state_step_def)

text \<open>
  Claim C10. For a contact whose id is a string, \<open>getContactState\<close>,
  \<open>setContactState\<close> and \<open>resetContactState\<close> each issue their one request to the same
  path, the base path followed by \<open>/states/\<close> and the contact id. For a contact whose id
  is not a string (a contact without an id has the id None), each of the three raises
  TypeError while it builds the path, and no request is issued.
\<close>

theorem state_paths_require_contact_id:
  "(contact_id c = PStr cid \<longrightarrow>
      map path (snd (getContactState api self c sent)) =
        map path sent @ [getBaseApiPath self @ ''/states/'' @ cid] \<and>
      map path (snd (setContactState api self c options sent)) =
        map path sent @ [getBaseApiPath self @ ''/states/'' @ cid] \<and>
      map path (snd (resetContactState api self c sent)) =
        map path sent @ [getBaseApiPath self @ ''/states/'' @ cid]) \<and>
   ((\<forall>t. contact_id c \<noteq> PStr t) \<longrightarrow>
      getContactState api self c sent = (Inl TypeError, sent) \<and>
      setContactState api self c options sent = (Inl TypeError, sent) \<and>
      resetContactState api self c sent = (Inl TypeError, sent))"
  by (simp add: getContactState_str setContactState_str resetContactState_str state_ops_no_id)

text \<open>
  C10 on the example contact CT1, and on a contact whose id is None.
\<close>

theorem state_paths_require_contact_id_witness:
  "contact_id example_contact = PStr ''CT1'' \<and>
   map path (snd (getContactState stub_server example_service example_contact [])) =
     [''/projects/PJ1/services/SV1/states/CT1''] \<and>
   map path (snd (setContactState stub_server example_service example_contact
                    [(''id'', PStr ''q1'')] [])) =
     [''/projects/PJ1/services/SV1/states/CT1''] \<and>
   map path (snd (resetContactState stub_server example_service example_contact [])) =
     [''/projects/PJ1/services/SV1/states/CT1''] \<and>
   getContactState stub_server example_service \<lparr>contact_id = PNone\<rparr> [] = (Inl TypeError, []) \<and>
   setContactState stub_server example_service \<lparr>contact_id = PNone\<rparr> [(''id'', PStr ''q1'')] [] =
     (Inl TypeError, []) \<and>
   resetContactState stub_server example_service \<lparr>contact_id = PNone\<rparr> [] = (Inl TypeError, [])"
  using state_paths_require_contact_id
      [of example_contact "''CT1''" stub_server example_service "[]" "[(''id'', PStr ''q1'')]"]
    state_paths_require_contact_id
      [of "\<lparr>contact_id = PNone\<rparr>" "''CT1''" stub_server example_service "[]"
          "[(''id'', PStr ''q1'')]"]
  by (simp add: example_contact_def example_base)

subsection \<open>Claims about paths, cursors and saving\<close>

text \<open>
  Claim C7. \<open>getBaseApiPath\<close> is \<open>/projects/\<close>, the project id, \<open>/services/\<close> and
  the service id. \<open>invoke\<close> sends its POST to this path followed by \<open>/invoke\<close>; for a
  contact with the string id \<open>cid\<close>, \<open>getContactState\<close> sends a GET,
  \<open>setContactState\<close> a POST and \<open>resetContactState\<close> a DELETE to this path followed by
  \<open>/states/\<close> and \<open>cid\<close>; the cursor of \<open>queryContactStates\<close> has this path followed
  by \<open>/states\<close>.
\<close>

theorem service_request_paths:
  "getBaseApiPath self = ''/projects/'' @ project_id self @ ''/services/'' @ id_s self \<and>
   snd (invoke api self options sent) =
     sent @ [\<lparr>meth = ''POST'',
              path = ''/projects/'' @ project_id self @ ''/services/'' @ id_s self @ ''/invoke'',
              params = Some options\<rparr>] \<and>
   (contact_id c = PStr cid \<longrightarrow>
      snd (getContactState api self c sent) =
        sent @ [\<lparr>meth = ''GET'',
                 path = ''/projects/'' @ project_id self @ ''/services/'' @ id_s self @
                        ''/states/'' @ cid,
                 params = None\<rparr>] \<and>
      snd (setContactState api self c options sent) =
        sent @ [\<lparr>meth = ''POST'',
                 path = ''/projects/'' @ project_id self @ ''/services/'' @ id_s self @
                        ''/states/'' @ cid,
                 params = Some options\<rparr>] \<and>
      snd (resetContactState api self c sent) =
        sent @ [\<lparr>meth = ''DELETE'',
                 path = ''/projects/'' @ project_id self @ ''/services/'' @ id_s self @
                        ''/states/'' @ cid,
                 params = None\<rparr>]) \<and>
   cursor_path (fst (queryContactStates api self options sent)) =
     ''/projects/'' @ project_id self @ ''/services/'' @ id_s self @ ''/states''"
  by (simp add: invoke_sent getContactState_str setContactState_str resetContactState_str
        queryContactStates_def newApiCursor_def getBaseApiPath_def)

text \<open>
  C7 on service SV1 of project PJ1 and contact CT1.
\<close>

theorem service_request_paths_witness:
  "contact_id example_contact = PStr ''CT1'' \<and>
   getBaseApiPath example_service = ''/projects/PJ1/services/SV1'' \<and>
   map path (snd (invoke stub_server example_service [(''context'', PStr ''contact'')] [])) =
     [''/projects/PJ1/services/SV1/invoke''] \<and>
   map path (snd (getContactState stub_server example_service example_contact [])) =
     [''/projects/PJ1/services/SV1/states/CT1''] \<and>
   map path (snd (setContactState stub_server example_service example_contact
                    [(''id'', PStr ''q1'')] [])) =
     [''/projects/PJ1/services/SV1/states/CT1''] \<and>
   map path (snd (resetContactState stub_server example_service example_contact [])) =
     [''/projects/PJ1/services/SV1/states/CT1''] \<and>
   cursor_path (fst (queryContactStates stub_server example_service [] [])) =
     ''/projects/PJ1/services/SV1/states''"
  using service_request_paths
      [of example_service stub_server "[(''context'', PStr ''contact'')]" "[]"
          example_contact "''CT1''"]
    service_request_paths
      [of example_service stub_server "[(''id'', PStr ''q1'')]" "[]" example_contact "''CT1''"]
    service_request_paths
      [of example_service stub_server "[]" "[]" example_contact "''CT1''"]
  by (simp add: example_service_def example_contact_def)

text \<open>
  Claim C5. \<open>queryContactStates\<close> returns an unfetched cursor over ContactServiceState
  that stores the filter options and the base path followed by \<open>/states\<close>, and issues no
  request; the first access to that cursor issues one GET of that path with the stored
  options.
\<close>

theorem queryContactStates_lazy:
  "queryContactStates api self options sent =
     (\<lparr>item_cls = ContactServiceState, cursor_path = getBaseApiPath self @ ''/states'',
       cursor_params = options, cursor_state = Unfetched\<rparr>,
      sent) \<and>
   snd (snd (cursor_access api (fst (queryContactStates api self options sent)) sent')) =
     sent' @ [\<lparr>meth = ''GET'', path = getBaseApiPath self @ ''/states'',
               params = Some options\<rparr>]"
  by (simp add: queryContactStates_def newApiCursor_def cursor_access_def doRequest_def
        split: sum.splits)

text \<open>
  Claim C6. \<open>save\<close> on a Service with an empty dirty set issues no request, raises no
  error and leaves the entity as it is. With a non-empty dirty set it issues one POST to the
  base path whose parameters are exactly the fields whose names are dirty, with their
  current values; when the dispatcher accepts, the dirty set is cleared and every field,
  the project id and the id are unchanged.
\<close>

theorem save_dirty_fields:
  "(dirty self = {} \<longrightarrow> save api self sent = (Inr (), self, sent)) \<and>
   (dirty self \<noteq> {} \<longrightarrow>
      snd (snd (save api self sent)) =
        sent @ [\<lparr>meth = ''POST'', path = getBaseApiPath self,
                 params = Some (dirty_fields self)\<rparr>] \<and>
      fst ` set (dirty_fields self) \<subseteq> dirty self \<and>
      (\<forall>kv \<in> set (field_data self). fst kv \<in> dirty self \<longrightarrow> kv \<in> set (dirty_fields self)) \<and>
      set (dirty_fields self) \<subseteq> set (field_data self) \<and>
      (\<forall>data. api sent \<lparr>meth = ''POST'', path = getBaseApiPath self,
                          params = Some (dirty_fields self)\<rparr> = Inr data \<longrightarrow>
         fst (save api self sent) = Inr () \<and>
         fst (snd (save api self sent)) = self\<lparr>dirty := {}\<rparr> \<and>
         field_data (fst (snd (save api self sent))) = field_data self \<and>
         project_id (fst (snd (save api self sent))) = project_id self \<and>
         id_s (fst (snd (save api self sent))) = id_s self \<and>
         dirty (fst (snd (save api self sent))) = {}))"
  by (auto simp add: save_def Entity_save_def doRequest_def dirty_fields_def split: sum.splits)

text \<open>
  C6 on the example service: without dirty fields nothing is sent; with \<open>name\<close> dirty
  only \<open>name\<close> is sent and the dirty set is empty afterwards.
\<close>

theorem save_dirty_fields_witness:
  "save stub_server example_service [] = (Inr (), example_service, []) \<and>
   save stub_server (example_service\<lparr>dirty := {''name''}\<rparr>) [] =
     (Inr (), example_service,
      [\<lparr>meth = ''POST'', path = ''/projects/PJ1/services/SV1'',
        params = Some [(''name'', PStr ''Poll'')]\<rparr>])"
  using save_dirty_fields [of example_service stub_server "[]"]
    save_dirty_fields [of "example_service\<lparr>dirty := {''name''}\<rparr>" stub_server "[]"]
  by (simp add: example_service_def stub_server_def getBaseApiPath_def dirty_fields_def
        save_def Entity_save_def doRequest_def)

subsection \<open>Errors of the dispatcher\<close>

text \<open>
  Claim C8. When the dispatcher raises an error \<open>e\<close> for the request of \<open>invoke\<close>,
  \<open>getContactState\<close>, \<open>setContactState\<close>, \<open>resetContactState\<close> or \<open>save\<close>, the
  operation raises the same \<open>e\<close>, having issued that single request and no other (no
  retry, no suppression, no rewrapping); \<open>save\<close> leaves the entity, its fields and dirty
  set included, as it was. \<open>queryContactStates\<close> calls the dispatcher not at all, and an
  error at the first access to its cursor is raised unchanged with the cursor unchanged.
  The other operations do not modify the Service.
\<close>

theorem dispatcher_errors_propagate:
  "(api sent \<lparr>meth = ''POST'', path = getBaseApiPath self @ ''/invoke'',
              params = Some options\<rparr> = Inl e \<longrightarrow>
      invoke api self options sent =
        (Inl e, sent @ [\<lparr>meth = ''POST'', path = getBaseApiPath self @ ''/invoke'',
                         params = Some options\<rparr>])) \<and>
   (contact_id c = PStr cid \<and>
    api sent \<lparr>meth = ''GET'', path = getBaseApiPath self @ ''/states/'' @ cid,
              params = None\<rparr> = Inl e \<longrightarrow>
      getContactState api self c sent =
        (Inl e, sent @ [\<lparr>meth = ''GET'', path = getBaseApiPath self @ ''/states/'' @ cid,
                         params = None\<rparr>])) \<and>
   (contact_id c = PStr cid \<and>
    api sent \<lparr>meth = ''POST'', path = getBaseApiPath self @ ''/states/'' @ cid,
              params = Some options\<rparr> = Inl e \<longrightarrow>
      setContactState api self c options sent =
        (Inl e, sent @ [\<lparr>meth = ''POST'', path = getBaseApiPath self @ ''/states/'' @ cid,
                         params = Some options\<rparr>])) \<and>
   (contact_id c = PStr cid \<and>
    api sent \<lparr>meth = ''DELETE'', path = getBaseApiPath self @ ''/states/'' @ cid,
              params = None\<rparr> = Inl e \<longrightarrow>
      resetContactState api self c sent =
        (Inl e, sent @ [\<lparr>meth = ''DELETE'', path = getBaseApiPath self @ ''/states/'' @ cid,
                         params = None\<rparr>])) \<and>
   snd (queryContactStates api self options sent) = sent \<and>
   (api sent \<lparr>meth = ''GET'', path = getBaseApiPath self @ ''/states'',
              params = Some options\<rparr> = Inl e \<longrightarrow>
      cursor_access api (fst (queryContactStates api self options sent)) sent =
        (Inl e, fst (queryContactStates api self options sent),
         sent @ [\<lparr>meth = ''GET'', path = getBaseApiPath self @ ''/states'',
                  params = Some options\<rparr>])) \<and>
   (dirty self \<noteq> {} \<and>
    api sent \<lparr>meth = ''POST'', path = getBaseApiPath self,
              params = Some (dirty_fields self)\<rparr> = Inl e \<longrightarrow>
      save api self sent =
        (Inl e, self,
         sent @ [\<lparr>meth = ''POST'', path = getBaseApiPath self,
                  params = Some (dirty_fields self)\<rparr>]))"
proof -
  have inv: "api sent \<lparr>meth = ''POST'', path = getBaseApiPath self @ ''/invoke'',
              params = Some options\<rparr> = Inl e \<Longrightarrow>
      invoke api self options sent =
        (Inl e, sent @ [\<lparr>meth = ''POST'', path = getBaseApiPath self @ ''/invoke'',
                         params = Some options\<rparr>])"
    by (simp add: invoke_def doRequest_def)
  have q: "snd (queryContactStates api self options sent) = sent"
    by (simp add: queryContactStates_def newApiCursor_def)
  have cur: "api sent \<lparr>meth = ''GET'', path = getBaseApiPath self @ ''/states'',
              params = Some options\<rparr> = Inl e \<Longrightarrow>
      cursor_access api (fst (queryContactStates api self options sent)) sent =
        (Inl e, fst (queryContactStates api self options sent),
         sent @ [\<lparr>meth = ''GET'', path = getBaseApiPath self @ ''/states'',
                  params = Some options\<rparr>])"
    by (simp add: queryContactStates_def newApiCursor_def cursor_access_error)
  show ?thesis
    using inv q cur
    by (simp add: getContactState_str setContactState_str resetContactState_str
          wrap_state_def save_error)
qed

text \<open>
  C8 on a server that rejects every request with the same APIError.
\<close>

theorem dispatcher_errors_propagate_witness:
  "invoke failing_server example_service [(''context'', PStr ''project'')] [] =
     (Inl (APIError ''unavailable''),
      [\<lparr>meth = ''POST'', path = ''/projects/PJ1/services/SV1/invoke'',
        params = Some [(''context'', PStr ''project'')]\<rparr>]) \<and>
   getContactState failing_server example_service example_contact [] =
     (Inl (APIError ''unavailable''),
      [\<lparr>meth = ''GET'', path = ''/projects/PJ1/services/SV1/states/CT1'', params = None\<rparr>]) \<and>
   setContactState failing_server example_service example_contact
       [(''context'', PStr ''project'')] [] =
     (Inl (APIError ''unavailable''),
      [\<lparr>meth = ''POST'', path = ''/projects/PJ1/services/SV1/states/CT1'',
        params = Some [(''context'', PStr ''project'')]\<rparr>]) \<and>
   resetContactState failing_server example_service example_contact [] =
     (Inl (APIError ''unavailable''),
      [\<lparr>meth = ''DELETE'', path = ''/projects/PJ1/services/SV1/states/CT1'', params = None\<rparr>]) \<and>
   save failing_server (example_service\<lparr>dirty := {''name''}\<rparr>) [] =
     (Inl (APIError ''unavailable''), example_service\<lparr>dirty := {''name''}\<rparr>,
      [\<lparr>meth = ''POST'', path = ''/projects/PJ1/services/SV1'',
        params = Some [(''name'', PStr ''Poll'')]\<rparr>])"
  using dispatcher_errors_propagate
      [of failing_server "[]" "example_service\<lparr>dirty := {''name''}\<rparr>"
          "[(''context'', PStr ''project'')]" "APIError ''unavailable''"
          example_contact "''CT1''"]
    dispatcher_errors_propagate
      [of failing_server "[]" example_service
          "[(''context'', PStr ''project'')]" "APIError ''unavailable''"
          example_contact "''CT1''"]
  by (simp add: failing_server_def example_service_def example_contact_def getBaseApiPath_def
        dirty_fields_def invoke_def doRequest_def getContactState_def setContactState_def
        resetContactState_def str_add_def)

end
